theory Spec2Isabelle
  imports Complex_Main "HOL-Library.Multiset"
begin

section \<open>JavaScript values used by the plugin\<close>

text \<open>
  The plugin (\<^verbatim>\<open>src/index.js\<close>) computes with JavaScript numbers. A finite number is
  modelled by the real it denotes, and \<^verbatim>\<open>NaN\<close> by a constructor of its own; the binary
  rounding of IEEE doubles, the infinities and the sign of zero are outside this model.
  \<^verbatim>\<open>undefined\<close> is \<open>None\<close> of an option type.
\<close>

datatype jsnum = NaN | Num real

text \<open>\<^verbatim>\<open>ToNumber\<close> of an array read: \<^verbatim>\<open>undefined\<close> converts to \<^verbatim>\<open>NaN\<close>.\<close>

fun to_number :: "real option \<Rightarrow> jsnum" where
  "to_number None = NaN"
| "to_number (Some x) = Num x"

fun js_add :: "jsnum \<Rightarrow> jsnum \<Rightarrow> jsnum" where
  "js_add (Num a) (Num b) = Num (a + b)"
| "js_add _ _ = NaN"

text \<open>Division by a finite non-zero constant (the source only divides by \<open>2\<close>).\<close>

fun js_div :: "jsnum \<Rightarrow> real \<Rightarrow> jsnum" where
  "js_div (Num a) c = Num (a / c)"
| "js_div NaN c = NaN"

text \<open>\<^verbatim>\<open>xs[i]\<close>: an index outside the array reads \<^verbatim>\<open>undefined\<close>.\<close>

definition array_get :: "'a list \<Rightarrow> int \<Rightarrow> 'a option" where
  "array_get xs i = (if 0 \<le> i \<and> i < int (length xs) then Some (xs ! nat i) else None)"

section \<open>The median of the wind-speed samples\<close>

text \<open>
  \<^verbatim>\<open>Array.prototype.sort(cmp)\<close> is a stable sort that keeps \<open>a\<close> before \<open>b\<close> when
  \<open>cmp a b \<le> 0\<close>; it is modelled by stable insertion with the comparator of the call.
\<close>

fun sort_insert :: "(real \<Rightarrow> real \<Rightarrow> real) \<Rightarrow> real \<Rightarrow> real list \<Rightarrow> real list" where
  "sort_insert cmp x [] = [x]"
| "sort_insert cmp x (y # ys) =
     (if cmp x y \<le> 0 then x # y # ys else y # sort_insert cmp x ys)"

definition sort_by :: "(real \<Rightarrow> real \<Rightarrow> real) \<Rightarrow> real list \<Rightarrow> real list" where
  "sort_by cmp xs = foldr (sort_insert cmp) xs []"

text \<open>
  Arrays are objects: \<^verbatim>\<open>arr\<close> is a reference, \<^verbatim>\<open>[...arr]\<close> allocates a new array and
  \<^verbatim>\<open>.sort\<close> reorders the array it is called on, in place, and returns that same reference.
  The store is the list of all arrays, a reference is an index into it.
\<close>

type_synonym store = "real list list"

definition spread :: "store \<Rightarrow> nat \<Rightarrow> nat \<times> store" where
  "spread h r = (length h, h @ [h ! r])"

definition array_sort :: "(real \<Rightarrow> real \<Rightarrow> real) \<Rightarrow> store \<Rightarrow> nat \<Rightarrow> nat \<times> store" where
  "array_sort cmp h r = (r, h[r := sort_by cmp (h ! r)])"

text \<open>
  \<^verbatim>\<open>
  const median = arr => {
    const mid = Math.floor(arr.length / 2),
      nums = [...arr].sort((a, b) => a - b);
    return arr.length % 2 !== 0 ? nums[mid] : (nums[mid - 1] + nums[mid]) / 2;
  };
  \<close>
\<close>

definition median :: "store \<Rightarrow> nat \<Rightarrow> jsnum option \<times> store" where
  "median h arr =
     (let mid = int (length (h ! arr) div 2);
          (copy, h1) = spread h arr;
          (nums, h2) = array_sort (\<lambda>a b. a - b) h1 copy
      in (if length (h2 ! arr) mod 2 \<noteq> 0 then map_option Num (array_get (h2 ! nums) mid)
          else Some (js_div (js_add (to_number (array_get (h2 ! nums) (mid - 1)))
                                    (to_number (array_get (h2 ! nums) mid))) 2),
          h2))"

text \<open>The value \<^verbatim>\<open>median(xs)\<close> for an array with the elements \<open>xs\<close>.\<close>

definition median_of :: "real list \<Rightarrow> jsnum option" where
  "median_of xs = fst (median [xs] 0)"

section \<open>Humanised elapsed time\<close>

text \<open>
  Number to string conversion of an integer (below \<open>10^21\<close> in magnitude JavaScript prints
  all the digits, which is what this function does).
\<close>

definition digit_char :: "nat \<Rightarrow> char" where
  "digit_char d = ''0123456789'' ! d"

function string_of_nat :: "nat \<Rightarrow> string" where
  "string_of_nat n =
     (if n < 10 then [digit_char n] else string_of_nat (n div 10) @ [digit_char (n mod 10)])"
  by pat_completeness auto
termination
  by (relation "measure id") auto

declare string_of_nat.simps [simp del]

definition number_to_string :: "int \<Rightarrow> string" where
  "number_to_string i =
     (if i < 0 then CHR ''-'' # string_of_nat (nat (- i)) else string_of_nat (nat i))"

text \<open>
  \<^verbatim>\<open>timeSince(date)\<close>; \<open>now\<close> is the value of \<^verbatim>\<open>new Date()\<close>, both in milliseconds.
  \<^verbatim>\<open>
  var seconds = Math.floor((new Date() - date) / 1000);
  var interval = seconds / 31536000;
  if (interval > 1) { return Math.floor(interval) + " years"; }
  interval = seconds / 2592000;
  if (interval > 1) { return Math.floor(interval) + " months"; }
  interval = seconds / 86400;
  if (interval > 1) { return Math.floor(interval) + " days"; }
  interval = seconds / 3600;
  if (interval > 1) {
    let time = Math.floor(interval);
    if (time == 1) { return (`${time} hour`); } else { return (msg = `${time} hours`); }
  }
  interval = seconds / 60;
  if (interval > 1) {
    let time = Math.floor(interval);
    if (time == 1) { return (`${time} minute`); } else { return (msg = `${time} minutes`); }
  }
  return Math.floor(seconds) + " seconds";
  \<close>
\<close>

definition timeSince :: "int \<Rightarrow> int \<Rightarrow> string" where
  "timeSince now date =
     (let seconds = \<lfloor>real_of_int (now - date) / 1000\<rfloor>;
          interval = real_of_int seconds / 31536000
      in if interval > 1 then number_to_string \<lfloor>interval\<rfloor> @ '' years''
         else let interval = real_of_int seconds / 2592000
      in if interval > 1 then number_to_string \<lfloor>interval\<rfloor> @ '' months''
         else let interval = real_of_int seconds / 86400
      in if interval > 1 then number_to_string \<lfloor>interval\<rfloor> @ '' days''
         else let interval = real_of_int seconds / 3600
      in if interval > 1 then
           (let time = \<lfloor>interval\<rfloor>
            in if time = 1 then number_to_string time @ '' hour''
               else number_to_string time @ '' hours'')
         else let interval = real_of_int seconds / 60
      in if interval > 1 then
           (let time = \<lfloor>interval\<rfloor>
            in if time = 1 then number_to_string time @ '' minute''
               else number_to_string time @ '' minutes'')
         else number_to_string \<lfloor>real_of_int seconds\<rfloor> @ '' seconds'')"

section \<open>Numeric conversions of the ingestor\<close>

text \<open>
  A value delivered with a path is a JSON value. The subscribed paths carry a number, the
  position object \<^verbatim>\<open>{latitude, longitude}\<close>, or \<^verbatim>\<open>null\<close> when the source has no
  reading; strings, booleans and arrays are not modelled.
\<close>

datatype jsvalue = Null | Number real | Position real real

text \<open>\<^verbatim>\<open>ToNumber\<close> as applied by \<^verbatim>\<open>*\<close> and \<^verbatim>\<open>-\<close>: \<^verbatim>\<open>null\<close> is \<open>0\<close>, an object is \<^verbatim>\<open>NaN\<close>.\<close>

fun value_to_number :: "jsvalue \<Rightarrow> jsnum" where
  "value_to_number Null = Num 0"
| "value_to_number (Number x) = Num x"
| "value_to_number (Position la lo) = NaN"

text \<open>
  \<^verbatim>\<open>parseFloat(value)\<close> converts its argument to a string first: a number prints and parses
  back to itself, \<^verbatim>\<open>"null"\<close> and \<^verbatim>\<open>"[object Object]"\<close> parse to \<^verbatim>\<open>NaN\<close>.
\<close>

fun parseFloat :: "jsvalue \<Rightarrow> jsnum" where
  "parseFloat (Number x) = Num x"
| "parseFloat Null = NaN"
| "parseFloat (Position la lo) = NaN"

fun js_mul :: "jsnum \<Rightarrow> jsnum \<Rightarrow> jsnum" where
  "js_mul (Num a) (Num b) = Num (a * b)"
| "js_mul _ _ = NaN"

fun js_sub :: "jsnum \<Rightarrow> jsnum \<Rightarrow> jsnum" where
  "js_sub (Num a) (Num b) = Num (a - b)"
| "js_sub _ _ = NaN"

text \<open>\<^verbatim>\<open>Math.round\<close> rounds to the nearest integer, a tie going up.\<close>

fun Math_round :: "jsnum \<Rightarrow> jsnum" where
  "Math_round (Num x) = Num (of_int \<lfloor>x + 1 / 2\<rfloor>)"
| "Math_round NaN = NaN"

text \<open>
  The number denoted by the string \<^verbatim>\<open>x.toFixed(d)\<close>, which is what \<^verbatim>\<open>parseFloat\<close> reads
  back: the sign is split off, then \<open>n / 10^d\<close> for the integer \<open>n\<close> nearest to
  \<open>x * 10^d\<close>, the larger one at a tie; from \<open>10^21\<close> on the number prints as it is.
\<close>

definition toFixed :: "nat \<Rightarrow> real \<Rightarrow> real" where
  "toFixed d x =
     (if \<bar>x\<bar> \<ge> 10 ^ 21 then x
      else if x < 0 then - (of_int \<lfloor>- x * 10 ^ d + 1 / 2\<rfloor> / 10 ^ d)
      else of_int \<lfloor>x * 10 ^ d + 1 / 2\<rfloor> / 10 ^ d)"

fun toFixed_parsed :: "nat \<Rightarrow> jsnum \<Rightarrow> jsnum" where
  "toFixed_parsed d (Num x) = Num (toFixed d x)"
| "toFixed_parsed d NaN = NaN"

text \<open>
  Sums, differences and products are exact here. The code rounds each to a double, which
  can move a value across a rounding tie: for 270 K the code stores \<open>-3.1\<close> and this
  model \<open>-3.2\<close>, for the humidity \<open>0.285\<close> the code stores \<open>28\<close> and this model \<open>29\<close>.
  The values that the statements below evaluate (the speeds \<open>5\<close> and \<open>7\<close>, the humidity
  \<open>0.455\<close>) come out the same in the code.
\<close>

definition radiantToDegrees :: "jsnum \<Rightarrow> jsnum" where
  "radiantToDegrees rad = js_mul rad (Num 57.2958)"

definition kelvinToCelsius :: "jsnum \<Rightarrow> jsnum" where
  "kelvinToCelsius deg = js_sub deg (Num 273.15)"

section \<open>Configuration, plugin variables and host\<close>

record paths =
  paths_position :: "string option"
  paths_windDirection :: "string option"
  paths_windSpeed :: "string option"
  paths_waterTemperature :: "string option"
  paths_outsideTemperature :: "string option"
  paths_pressure :: "string option"
  paths_humidity :: "string option"

record options =
  apiKey :: "string option"
  submitInterval :: real
  stationId :: real
  provider :: "string option"
  url :: "string option"
  paths :: "paths option"

text \<open>
  The variables of the closure \<^verbatim>\<open>module.exports = function(app) { ... }\<close>. A variable that
  holds \<^verbatim>\<open>undefined\<close> or \<^verbatim>\<open>null\<close> is \<open>None\<close> (the code tests them with \<^verbatim>\<open>== null\<close> only);
  timers and subscriptions are known by their handles.
\<close>

record plugin =
  unsubscribes :: "nat list"
  submitProcess :: "nat option"
  statusProcess :: "nat option"
  lastSuccessfulUpdate :: "int option"
  vessel_name :: "string option"
  position :: "jsvalue option"
  windSpeed :: "real list"
  windGust :: "real option"
  windDirection :: "jsnum option"
  waterTemperature :: "jsnum option"
  temperature :: "jsnum option"
  pressure :: "jsnum option"
  humidity :: "jsnum option"

record station =
  st_station :: real
  st_name :: "string option"
  st_shareOption :: string
  st_type :: string
  st_provider :: "string option"
  st_url :: "string option"
  st_lat :: "real option"
  st_lon :: "real option"
  st_elevation :: real

record observation =
  ob_station :: real
  ob_temp :: "jsnum option"
  ob_wind :: "jsnum option"
  ob_gust :: "real option"
  ob_winddir :: "jsnum option"
  ob_pressure :: "jsnum option"
  ob_rh :: "jsnum option"

record report =
  stations :: "station list"
  observations :: "observation list"

record http_request =
  uri :: string
  http_method :: string
  json :: report

datatype http_outcome = TransportError string | Response int string

datatype trace =
    StartingSubmission real
  | NotSubmitting
  | SubmittingData report
  | ReportSubmitted
  | ErrorSubmitting
  | ResponseBody string
  | UnknownPath "string option"

datatype status =
    SubmittingEvery real
  | PluginStopped
  | StatusMessage "string option" "(real \<times> real) option"

datatype callback = StatusCallback | SubmitCallback

text \<open>
  What the plugin reaches of the Signal K server and of Node: the intervals that are set
  (handle, period in milliseconds, callback), the subscriptions that are registered (handle
  and subscribed paths), the status line, the debug and error logs, and the HTTP requests
  sent so far.
\<close>

record host =
  intervals :: "(nat \<times> real \<times> callback) list"
  subscriptions :: "(nat \<times> string list) list"
  next_handle :: nat
  pluginStatus :: "status option"
  debug_log :: "trace list"
  error_log :: "string list"
  requests :: "http_request list"

definition app_debug :: "trace \<Rightarrow> host \<Rightarrow> host" where
  "app_debug m h = h\<lparr>debug_log := debug_log h @ [m]\<rparr>"

definition app_error :: "string \<Rightarrow> host \<Rightarrow> host" where
  "app_error m h = h\<lparr>error_log := error_log h @ [m]\<rparr>"

definition setPluginStatus :: "status \<Rightarrow> host \<Rightarrow> host" where
  "setPluginStatus m h = h\<lparr>pluginStatus := Some m\<rparr>"

definition setInterval :: "callback \<Rightarrow> real \<Rightarrow> host \<Rightarrow> nat \<times> host" where
  "setInterval f ms h =
     (next_handle h,
      h\<lparr>intervals := intervals h @ [(next_handle h, ms, f)], next_handle := next_handle h + 1\<rparr>)"

text \<open>\<^verbatim>\<open>clearInterval(undefined)\<close> does nothing.\<close>

definition clearInterval :: "nat option \<Rightarrow> host \<Rightarrow> host" where
  "clearInterval t h =
     (case t of None \<Rightarrow> h
      | Some k \<Rightarrow> h\<lparr>intervals := filter (\<lambda>e. fst e \<noteq> k) (intervals h)\<rparr>)"

text \<open>
  \<^verbatim>\<open>app.subscriptionmanager.subscribe(subscription, unsubscribes, errorCallback, deltaCallback)\<close>
  of the server: it registers the subscription and pushes the function that cancels it on
  the array it is given.
\<close>

definition subscribe :: "string list \<Rightarrow> plugin \<times> host \<Rightarrow> plugin \<times> host" where
  "subscribe ps w =
     (case w of (s, h) \<Rightarrow>
        (s\<lparr>unsubscribes := unsubscribes s @ [next_handle h]\<rparr>,
         h\<lparr>subscriptions := subscriptions h @ [(next_handle h, ps)],
           next_handle := next_handle h + 1\<rparr>))"

section \<open>Plugin life cycle\<close>

definition initial :: "string option \<Rightarrow> plugin" where
  "initial nm =
     \<lparr>unsubscribes = [], submitProcess = None, statusProcess = None,
      lastSuccessfulUpdate = None, vessel_name = nm, position = None, windSpeed = [],
      windGust = None, windDirection = None, waterTemperature = None, temperature = None,
      pressure = None, humidity = None\<rparr>"

definition no_paths :: paths where
  "no_paths =
     \<lparr>paths_position = None, paths_windDirection = None, paths_windSpeed = None,
      paths_waterTemperature = None, paths_outsideTemperature = None, paths_pressure = None,
      paths_humidity = None\<rparr>"

text \<open>\<^verbatim>\<open>x || d\<close> for a string \<open>x\<close>: \<^verbatim>\<open>undefined\<close> and the empty string are falsy.\<close>

fun or_default :: "string option \<Rightarrow> string \<Rightarrow> string" where
  "or_default None d = d"
| "or_default (Some x) d = (if x = [] then d else x)"

text \<open>
  \<^verbatim>\<open>plugin.start(options)\<close>. The assignment \<^verbatim>\<open>options.paths = options.paths || {}\<close> changes
  the object the two timer callbacks close over, so the options as they are after the call
  are returned with the state.
\<close>

definition start :: "options \<Rightarrow> plugin \<times> host \<Rightarrow> options \<times> plugin \<times> host" where
  "start opts w =
     (case w of (s, h) \<Rightarrow>
        if apiKey opts = None \<or> apiKey opts = Some [] then
          (opts, s, app_error ''API Key is required'' h)
        else
          let p = (case paths opts of None \<Rightarrow> no_paths | Some p \<Rightarrow> p);
              opts1 = opts\<lparr>paths := Some p\<rparr>;
              h1 = setPluginStatus (SubmittingEvery (submitInterval opts1)) h;
              subscription =
                [or_default (paths_position p) ''navigation.position'',
                 or_default (paths_windDirection p) ''environment.wind.directionGround'',
                 or_default (paths_windSpeed p) ''environment.wind.speedOverGround'',
                 or_default (paths_waterTemperature p) ''environment.water.temperature'',
                 or_default (paths_outsideTemperature p) ''environment.outside.temperature'',
                 or_default (paths_pressure p) ''environment.outside.pressure'',
                 or_default (paths_humidity p) ''environment.outside.humidity''];
              (s2, h2) = subscribe subscription (s, h1);
              h3 = app_debug (StartingSubmission (submitInterval opts1)) h2;
              (t4, h4) = setInterval StatusCallback (5 * 1000) h3;
              s4 = s2\<lparr>statusProcess := Some t4\<rparr>;
              (t5, h5) = setInterval SubmitCallback (submitInterval opts1 * 60 * 1000) h4;
              s5 = s4\<lparr>submitProcess := Some t5\<rparr>
          in (opts1, s5, h5))"

text \<open>
  \<^verbatim>\<open>
  plugin.stop =  function() {
    clearInterval(statusProcess);
    clearInterval(submitProcess);
    app.setPluginStatus('Pluggin stopped');
  };
  \<close>
\<close>

definition stop :: "plugin \<times> host \<Rightarrow> plugin \<times> host" where
  "stop w =
     (case w of (s, h) \<Rightarrow>
        let h1 = clearInterval (statusProcess s) h;
            h2 = clearInterval (submitProcess s) h1
        in (s, setPluginStatus PluginStopped h2))"

section \<open>Ingestor\<close>

record path_value =
  pv_path :: "string option"
  pv_value :: jsvalue

record update =
  upd_values :: "path_value list option"

record delta =
  updates :: "update list option"

datatype js_error = ReferenceError | TypeError

text \<open>
  \<^verbatim>\<open>processDelta\<close> is declared in the body of \<^verbatim>\<open>module.exports = function(app)\<close>, beside
  \<^verbatim>\<open>plugin.start\<close> and not inside it. The identifier \<^verbatim>\<open>options\<close> in its case labels is
  therefore not the parameter of \<^verbatim>\<open>plugin.start\<close>: no enclosing scope of the file declares
  it, and it resolves against the global object. \<open>genv\<close> is that global binding, \<open>None\<close>
  when the global object has no property \<^verbatim>\<open>options\<close>; evaluating the identifier then raises
  \<^verbatim>\<open>ReferenceError\<close>. \<^verbatim>\<open>options.paths?.f\<close> is \<^verbatim>\<open>undefined\<close> when \<^verbatim>\<open>options.paths\<close> is.
\<close>

definition configured ::
    "options option \<Rightarrow> (paths \<Rightarrow> string option) \<Rightarrow> js_error + string option" where
  "configured genv f =
     (case genv of None \<Rightarrow> Inl ReferenceError
      | Some opts \<Rightarrow> Inr (case paths opts of None \<Rightarrow> None | Some p \<Rightarrow> f p))"

datatype clause =
    CPosition | CWindSpeed | CWindDirection | CWaterTemperature | CTemperature
  | CPressure | CHumidity | CDefault

text \<open>
  The case labels of the \<^verbatim>\<open>switch (path)\<close>, in source order: each clause has a string
  literal and, after it, an \<^verbatim>\<open>options.paths?.f\<close> label.
\<close>

definition switch_labels :: "(string \<times> (paths \<Rightarrow> string option) \<times> clause) list" where
  "switch_labels =
     [(''navigation.position'', paths_position, CPosition),
      (''environment.wind.speedOverGround'', paths_windSpeed, CWindSpeed),
      (''environment.wind.directionGround'', paths_windDirection, CWindDirection),
      (''environment.water.temperature'', paths_waterTemperature, CWaterTemperature),
      (''environment.outside.temperature'', paths_outsideTemperature, CTemperature),
      (''environment.outside.pressure'', paths_pressure, CPressure),
      (''environment.outside.humidity'', paths_humidity, CHumidity)]"

text \<open>
  A \<^verbatim>\<open>switch\<close> evaluates its labels one after the other and compares each with \<^verbatim>\<open>===\<close>,
  until one is equal; the labels after the selected one are not evaluated.
\<close>

fun select ::
    "options option \<Rightarrow> string option \<Rightarrow> (string \<times> (paths \<Rightarrow> string option) \<times> clause) list
       \<Rightarrow> js_error + clause" where
  "select genv p [] = Inr CDefault"
| "select genv p ((lit, f, c) # ls) =
     (if p = Some lit then Inr c
      else case configured genv f of
             Inl e \<Rightarrow> Inl e
           | Inr q \<Rightarrow> if p = q then Inr c else select genv p ls)"

text \<open>\<^verbatim>\<open>position = value\<close>: a \<^verbatim>\<open>null\<close> value leaves the variable null.\<close>

fun nullable :: "jsvalue \<Rightarrow> jsvalue option" where
  "nullable Null = None"
| "nullable v = Some v"

text \<open>
  The statements of the selected clause. \<^verbatim>\<open>value.toFixed(2)\<close> raises \<^verbatim>\<open>TypeError\<close> when
  \<^verbatim>\<open>value\<close> is \<^verbatim>\<open>null\<close> or an object without that method.
\<close>

fun clause_body ::
    "clause \<Rightarrow> string option \<Rightarrow> jsvalue \<Rightarrow> plugin \<times> host \<Rightarrow> js_error + plugin \<times> host" where
  "clause_body CPosition p v (s, h) = Inr (s\<lparr>position := nullable v\<rparr>, h)"
| "clause_body CWindSpeed p v (s, h) =
     (case v of
        Number x \<Rightarrow>
          let speed = toFixed 2 x;
              s1 = (if (case windGust s of None \<Rightarrow> True | Some g \<Rightarrow> speed > g)
                    then s\<lparr>windGust := Some speed\<rparr> else s)
          in Inr (s1\<lparr>windSpeed := windSpeed s1 @ [speed]\<rparr>, h)
      | _ \<Rightarrow> Inl TypeError)"
| "clause_body CWindDirection p v (s, h) =
     Inr (s\<lparr>windDirection := Some (Math_round (radiantToDegrees (value_to_number v)))\<rparr>, h)"
| "clause_body CWaterTemperature p v (s, h) =
     Inr (s\<lparr>waterTemperature :=
              Some (toFixed_parsed 1 (kelvinToCelsius (value_to_number v)))\<rparr>, h)"
| "clause_body CTemperature p v (s, h) =
     Inr (s\<lparr>temperature := Some (toFixed_parsed 1 (kelvinToCelsius (value_to_number v)))\<rparr>, h)"
| "clause_body CPressure p v (s, h) = Inr (s\<lparr>pressure := Some (parseFloat v)\<rparr>, h)"
| "clause_body CHumidity p v (s, h) =
     Inr (s\<lparr>humidity := Some (Math_round (js_mul (Num 100) (parseFloat v)))\<rparr>, h)"
| "clause_body CDefault p v (s, h) = Inr (s, app_debug (UnknownPath p) h)"

text \<open>
  \<^verbatim>\<open>
  function processDelta(data) {
    if (!data.updates || !data.updates.length || !data.updates[0].values ||
        !data.updates[0].values.length) { return; }
    let dict = data.updates[0].values[0];
    let path = dict.path;
    let value = dict.value;
    switch (path) { ... }
  }
  \<close>
  An exception leaves the function before any variable is assigned.
\<close>

definition processDelta ::
    "options option \<Rightarrow> delta \<Rightarrow> plugin \<times> host \<Rightarrow> js_error + plugin \<times> host" where
  "processDelta genv data w =
     (case updates data of
        None \<Rightarrow> Inr w
      | Some [] \<Rightarrow> Inr w
      | Some (u # _) \<Rightarrow>
          (case upd_values u of
             None \<Rightarrow> Inr w
           | Some [] \<Rightarrow> Inr w
           | Some (dict # _) \<Rightarrow>
               (case select genv (pv_path dict) switch_labels of
                  Inl e \<Rightarrow> Inl e
                | Inr c \<Rightarrow> clause_body c (pv_path dict) (pv_value dict) w)))"

section \<open>Aggregator and submitter\<close>

definition API_BASE :: string where
  "API_BASE = ''https://stations.windy.com./pws/update/''"

text \<open>String concatenation prints \<^verbatim>\<open>undefined\<close> as the word.\<close>

fun string_of :: "string option \<Rightarrow> string" where
  "string_of None = ''undefined''"
| "string_of (Some x) = x"

text \<open>\<^verbatim>\<open>position.latitude\<close> and \<^verbatim>\<open>position.longitude\<close>; a number has neither property.\<close>

fun latitude :: "jsvalue \<Rightarrow> real option" where
  "latitude (Position la lo) = Some la"
| "latitude _ = None"

fun longitude :: "jsvalue \<Rightarrow> real option" where
  "longitude (Position la lo) = Some lo"
| "longitude _ = None"

text \<open>
  The callback of the submit timer, up to the call of \<^verbatim>\<open>request\<close>, which sends the
  request and returns at once; \<open>opts\<close> is the \<^verbatim>\<open>options\<close> of \<^verbatim>\<open>plugin.start\<close>, which the
  callback closes over.
  \<^verbatim>\<open>
  if ( (position == null) || (windSpeed.length == 0) || (windDirection == null) ||
       (temperature == null) ) {
    app.debug(message);
    return
  }
  let data = { stations: [ ... ], observations: [ ... ] }
  let httpOptions = { uri: API_BASE + options.apiKey, method: 'POST', json: data };
  app.debug(`Submitting data: ${JSON.stringify(data)}`);
  request(httpOptions, function (error, response, body) { ... });
  \<close>
\<close>

definition submitTick :: "options \<Rightarrow> plugin \<times> host \<Rightarrow> plugin \<times> host" where
  "submitTick opts w =
     (case w of (s, h) \<Rightarrow>
        (case position s of
           None \<Rightarrow> (s, app_debug NotSubmitting h)
         | Some pos \<Rightarrow>
             if windSpeed s = [] \<or> windDirection s = None \<or> temperature s = None then
               (s, app_debug NotSubmitting h)
             else
               let data =
                     \<lparr>stations =
                        [\<lparr>st_station = stationId opts, st_name = vessel_name s,
                          st_shareOption = ''Open'',
                          st_type = ''Boat (powered by Saillogger.com Signal K plugin)'',
                          st_provider = provider opts, st_url = url opts,
                          st_lat = latitude pos, st_lon = longitude pos, st_elevation = 1\<rparr>],
                      observations =
                        [\<lparr>ob_station = stationId opts, ob_temp = temperature s,
                          ob_wind = median_of (windSpeed s), ob_gust = windGust s,
                          ob_winddir = windDirection s, ob_pressure = pressure s,
                          ob_rh = humidity s\<rparr>]\<rparr>;
                   httpOptions =
                     \<lparr>uri = API_BASE @ string_of (apiKey opts), http_method = ''POST'',
                      json = data\<rparr>;
                   h1 = app_debug (SubmittingData data) h
               in (s, h1\<lparr>requests := requests h1 @ [httpOptions]\<rparr>)))"

text \<open>
  The callback given to \<^verbatim>\<open>request\<close>, called once with the outcome of the POST; \<open>now\<close> is
  the value of \<^verbatim>\<open>Date.now()\<close>. With a transport error \<^verbatim>\<open>response\<close> is not read.
  \<^verbatim>\<open>
  if (!error && response.statusCode == 200) {
    app.debug('Weather report successfully submitted');
    lastSuccessfulUpdate = Date.now();
    position = null; windSpeed = []; windGust = null; windDirection = null;
    waterTemperature = null; temperature = null; pressure = null; humidity = null;
  } else {
    app.debug('Error submitting to Windy.com API');
    app.debug(body);
  }
  \<close>
\<close>

fun succeeded :: "http_outcome \<Rightarrow> bool" where
  "succeeded (TransportError b) = False"
| "succeeded (Response code b) = (code = 200)"

fun body_of :: "http_outcome \<Rightarrow> string" where
  "body_of (TransportError b) = b"
| "body_of (Response code b) = b"

definition requestCallback :: "int \<Rightarrow> http_outcome \<Rightarrow> plugin \<times> host \<Rightarrow> plugin \<times> host" where
  "requestCallback now r w =
     (case w of (s, h) \<Rightarrow>
        if succeeded r then
          (s\<lparr>lastSuccessfulUpdate := Some now, position := None, windSpeed := [],
             windGust := None, windDirection := None, waterTemperature := None,
             temperature := None, pressure := None, humidity := None\<rparr>,
           app_debug ReportSubmitted h)
        else (s, app_debug (ResponseBody (body_of r)) (app_debug ErrorSubmitting h)))"

section \<open>Status reporter\<close>

definition metersPerSecondToKnots :: "real \<Rightarrow> real" where
  "metersPerSecondToKnots ms = of_int \<lfloor>ms * 1.94384 * 10 + 1 / 2\<rfloor> / 10"

text \<open>
  The callback of the status timer. \<^verbatim>\<open>if (lastSuccessfulUpdate)\<close> is a truthiness test:
  the time stamp \<open>0\<close> counts as unset.
\<close>

definition statusTick :: "int \<Rightarrow> plugin \<times> host \<Rightarrow> plugin \<times> host" where
  "statusTick now w =
     (case w of (s, h) \<Rightarrow>
        let since = (case lastSuccessfulUpdate s of
                       None \<Rightarrow> None
                     | Some t \<Rightarrow> if t = 0 then None else Some (timeSince now t));
            wind = (case windGust s of
                      None \<Rightarrow> None
                    | Some g \<Rightarrow>
                        if windSpeed s = [] then None
                        else Some (metersPerSecondToKnots (last (windSpeed s)),
                                   metersPerSecondToKnots g))
        in (s, setPluginStatus (StatusMessage since wind) h))"

section \<open>Runs of the started plugin\<close>

text \<open>
  The event loop calls one handler at a time and each runs to completion. An exception
  raised by \<^verbatim>\<open>processDelta\<close> is thrown into the server's delivery code; the variables of
  the plugin are as they were.
\<close>

datatype event =
    Delta delta
  | StatusTimer int
  | SubmitTimer
  | HttpDone int http_outcome

fun step :: "options option \<Rightarrow> options \<Rightarrow> event \<Rightarrow> plugin \<times> host \<Rightarrow> plugin \<times> host" where
  "step genv opts (Delta d) w = (case processDelta genv d w of Inl e \<Rightarrow> w | Inr w' \<Rightarrow> w')"
| "step genv opts (StatusTimer now) w = statusTick now w"
| "step genv opts SubmitTimer w = submitTick opts w"
| "step genv opts (HttpDone now r) w = requestCallback now r w"

fun run :: "options option \<Rightarrow> options \<Rightarrow> event list \<Rightarrow> plugin \<times> host \<Rightarrow> plugin \<times> host" where
  "run genv opts [] w = w"
| "run genv opts (e # es) w = run genv opts es (step genv opts e w)"

section \<open>Predicates of the statements\<close>

text \<open>The gust is unset while there are no samples, and is their maximum otherwise.\<close>

definition gust_tracks :: "plugin \<Rightarrow> bool" where
  "gust_tracks s =
     (case windGust s of
        None \<Rightarrow> windSpeed s = []
      | Some g \<Rightarrow> windSpeed s \<noteq> [] \<and> g = Max (set (windSpeed s)))"

section \<open>Sample inputs\<close>

text \<open>A server that has set no timer and registered no subscription yet.\<close>

definition fresh_host :: host where
  "fresh_host =
     \<lparr>intervals = [], subscriptions = [], next_handle = 0, pluginStatus = None,
      debug_log = [], error_log = [], requests = []\<rparr>"

text \<open>The delta \<^verbatim>\<open>{updates: [{values: [{path: p, value: v}]}]}\<close>.\<close>

definition delta_of :: "string \<Rightarrow> jsvalue \<Rightarrow> delta" where
  "delta_of p v =
     \<lparr>updates = Some [\<lparr>upd_values = Some [\<lparr>pv_path = Some p, pv_value = v\<rparr>]\<rparr>]\<rparr>"

text \<open>A configuration with the schema's defaults, and one that renames the humidity path.\<close>

definition sample_options :: options where
  "sample_options =
     \<lparr>apiKey = Some ''key'', submitInterval = 5, stationId = 100, provider = Some [],
      url = Some [], paths = None\<rparr>"

definition renamed_options :: options where
  "renamed_options =
     sample_options\<lparr>paths := Some (no_paths\<lparr>paths_humidity := Some ''cabin.humidity''\<rparr>)\<rparr>"

text \<open>Plugin variables holding a complete set of readings, the last submission at \<open>1000\<close>.\<close>

definition sample_readings :: plugin where
  "sample_readings =
     (initial None)
       \<lparr>lastSuccessfulUpdate := Some 1000, position := Some (Position 41 (- 70)),
        windSpeed := [5, 7], windGust := Some 7, windDirection := Some (Num 90),
        temperature := Some (Num 27)\<rparr>"

section \<open>Median\<close>

lemma sort_insert_insort: "sort_insert (\<lambda>a b. a - b) x ys = insort x ys"
  by (induction ys) auto

lemma sort_by_sort: "sort_by (\<lambda>a b. a - b) xs = sort xs"
  by (induction xs) (auto simp: sort_by_def sort_insert_insort)

lemma median_fst:
  "a < length h \<Longrightarrow> fst (median h a) =
     (let nums = sort (h ! a); mid = int (length (h ! a) div 2)
      in if length (h ! a) mod 2 \<noteq> 0 then map_option Num (array_get nums mid)
         else Some (js_div (js_add (to_number (array_get nums (mid - 1)))
                                   (to_number (array_get nums mid))) 2))"
  by (simp add: median_def spread_def array_sort_def Let_def nth_append sort_by_sort)

lemma median_snd: "a < length h \<Longrightarrow> snd (median h a) = h @ [sort (h ! a)]"
  by (simp add: median_def spread_def array_sort_def Let_def nth_append sort_by_sort)

lemma median_of_eq:
  "median_of xs =
     (let nums = sort xs; mid = int (length xs div 2)
      in if length xs mod 2 \<noteq> 0 then map_option Num (array_get nums mid)
         else Some (js_div (js_add (to_number (array_get nums (mid - 1)))
                                   (to_number (array_get nums mid))) 2))"
  by (simp add: median_of_def median_fst)

lemma median_nonempty:
  assumes "xs \<noteq> []"
  shows "median_of xs = Some (Num (if odd (length xs) then sort xs ! (length xs div 2)
            else (sort xs ! (length xs div 2 - 1) + sort xs ! (length xs div 2)) / 2))"
proof (cases "odd (length xs)")
  case True
  then show ?thesis
    by (simp add: median_of_eq array_get_def Let_def odd_iff_mod_2_eq_one)
next
  case False
  with assms have "length xs \<ge> 2" by (cases xs) (auto simp: Suc_le_eq)
  then have "length xs div 2 \<ge> 1" by simp
  with False show ?thesis
    by (simp add: median_of_eq array_get_def Let_def nat_diff_distrib')
qed

text \<open>
  Claim C5. For an array \<open>arr\<close> that is not empty, \<^verbatim>\<open>median(arr)\<close> is the middle element of
  the ascending arrangement \<open>ys\<close> of its elements when their number is odd and the mean of
  the two middle elements when it is even; any array with the same elements in another
  order has the same median; and the call leaves every array that existed before it,
  \<open>arr\<close> among them, as it was (the sorted copy is a new array).
\<close>

theorem median_standard_definition:
  "a < length h \<Longrightarrow> h ! a \<noteq> [] \<Longrightarrow> sorted ys \<Longrightarrow> mset ys = mset (h ! a) \<Longrightarrow>
     fst (median h a) =
       Some (Num (if odd (length ys) then ys ! (length ys div 2)
                  else (ys ! (length ys div 2 - 1) + ys ! (length ys div 2)) / 2))
     \<and> (\<forall>h' a'. a' < length h' \<and> mset (h' ! a') = mset (h ! a)
           \<longrightarrow> fst (median h' a') = fst (median h a))
     \<and> take (length h) (snd (median h a)) = h
     \<and> snd (median h a) ! a = h ! a"
proof -
  assume a: "a < length h" and ne: "h ! a \<noteq> []"
    and s: "sorted ys" and m: "mset ys = mset (h ! a)"
  have ys: "sort (h ! a) = ys" using m s by (rule properties_for_sort)
  have len: "length ys = length (h ! a)" using m by (metis size_mset)
  have fst_eq: "fst (median h' a') = median_of (h' ! a')" if "a' < length h'" for h' a'
    using that by (simp add: median_fst median_of_eq)
  have 1: "fst (median h a) =
       Some (Num (if odd (length ys) then ys ! (length ys div 2)
                  else (ys ! (length ys div 2 - 1) + ys ! (length ys div 2)) / 2))"
    using median_nonempty [OF ne] a by (simp add: fst_eq ys len)
  have 2: "fst (median h' a') = fst (median h a)"
    if "a' < length h'" "mset (h' ! a') = mset (h ! a)" for h' a'
  proof -
    have "sort (h' ! a') = sort (h ! a)"
      using that(2) by (metis properties_for_sort sorted_sort mset_sort)
    moreover have "length (h' ! a') = length (h ! a)" using that(2) by (metis size_mset)
    ultimately show ?thesis using that(1) a by (simp add: median_fst)
  qed
  have 3: "take (length h) (snd (median h a)) = h" using a by (simp add: median_snd)
  have 4: "snd (median h a) ! a = h ! a" using a by (simp add: median_snd nth_append)
  from 1 2 3 4 show ?thesis by blast
qed

theorem median_standard_definition_witness:
  "(0::nat) < length [[7, 5::real]] \<and> [[7, 5::real]] ! 0 \<noteq> [] \<and> sorted [5, 7::real]
   \<and> mset [5, 7::real] = mset ([[7, 5]] ! 0)
   \<and> fst (median [[7, 5]] 0) = Some (Num 6)
   \<and> snd (median [[7, 5]] 0) ! 0 = [7, 5]"
  using median_standard_definition [of 0 "[[7, 5]]" "[5, 7]"] by simp

section \<open>Elapsed time\<close>

lemma floor_div_numeral: "\<lfloor>real_of_int s / numeral b\<rfloor> = s div numeral b"
  by (metis floor_divide_of_int_eq of_int_numeral)

lemma div_numeral_gt_one: "real_of_int s / numeral b > 1 \<longleftrightarrow> s > numeral b"
  by (simp add: field_simps)

lemma number_to_string_one: "number_to_string 1 = ''1''"
  by (simp add: number_to_string_def string_of_nat.simps digit_char_def)

text \<open>
  Claim C7. With \<open>s\<close> the whole seconds elapsed, \<^verbatim>\<open>timeSince\<close> answers in years when
  \<open>s > 31536000\<close>, else in months when \<open>s > 2592000\<close>, else in days when \<open>s > 86400\<close>, else
  in hours when \<open>s > 3600\<close>, else in minutes when \<open>s > 60\<close>, else in seconds; the count is
  the integer quotient of \<open>s\<close> by the size of the unit, and only hours and minutes have a
  singular form. 90 seconds give "1 minute", 7200 seconds "2 hours" and 90000 seconds
  "1 days".
\<close>

theorem timeSince_buckets:
  "timeSince now date =
     (let s = (now - date) div 1000
      in if s > 31536000 then number_to_string (s div 31536000) @ '' years''
         else if s > 2592000 then number_to_string (s div 2592000) @ '' months''
         else if s > 86400 then number_to_string (s div 86400) @ '' days''
         else if s > 3600 then
           (if s div 3600 = 1 then ''1 hour'' else number_to_string (s div 3600) @ '' hours'')
         else if s > 60 then
           (if s div 60 = 1 then ''1 minute'' else number_to_string (s div 60) @ '' minutes'')
         else number_to_string s @ '' seconds'')
   \<and> timeSince 90000 0 = ''1 minute''
   \<and> timeSince 7200000 0 = ''2 hours''
   \<and> timeSince 90000000 0 = ''1 days''"
proof -
  have ex: "timeSince 90000 0 = ''1 minute''" "timeSince 7200000 0 = ''2 hours''"
    "timeSince 90000000 0 = ''1 days''"
    by (simp_all add: timeSince_def number_to_string_def string_of_nat.simps digit_char_def)
  have "timeSince now date =
     (let s = (now - date) div 1000
      in if s > 31536000 then number_to_string (s div 31536000) @ '' years''
         else if s > 2592000 then number_to_string (s div 2592000) @ '' months''
         else if s > 86400 then number_to_string (s div 86400) @ '' days''
         else if s > 3600 then
           (if s div 3600 = 1 then ''1 hour'' else number_to_string (s div 3600) @ '' hours'')
         else if s > 60 then
           (if s div 60 = 1 then ''1 minute'' else number_to_string (s div 60) @ '' minutes'')
         else number_to_string s @ '' seconds'')"
    unfolding timeSince_def Let_def floor_div_numeral div_numeral_gt_one floor_of_int
    by (simp add: number_to_string_one)
  with ex show ?thesis by simp
qed

section \<open>Submit cycle\<close>

lemma submitTick_fst: "fst (submitTick opts w) = fst w"
  by (cases w) (simp add: submitTick_def Let_def split: option.splits)

text \<open>
  Claim C4. At a submit tick with the position unset, or no wind-speed sample, or the wind
  direction unset, or the temperature unset, the callback only writes its debug line: no
  request is sent and every variable of the plugin keeps its value.
\<close>

theorem submit_skipped_without_readings:
  "position s = None \<or> windSpeed s = [] \<or> windDirection s = None \<or> temperature s = None \<Longrightarrow>
     submitTick opts (s, h) = (s, app_debug NotSubmitting h)
     \<and> requests (snd (submitTick opts (s, h))) = requests h"
  by (auto simp: submitTick_def app_debug_def split: option.splits)

theorem submit_skipped_without_readings_witness:
  "windDirection (sample_readings\<lparr>windDirection := None\<rparr>) = None
   \<and> submitTick sample_options (sample_readings\<lparr>windDirection := None\<rparr>, fresh_host)
       = (sample_readings\<lparr>windDirection := None\<rparr>, app_debug NotSubmitting fresh_host)
   \<and> requests (snd (submitTick sample_options
                      (sample_readings\<lparr>windDirection := None\<rparr>, fresh_host))) = []"
  using submit_skipped_without_readings
          [of "sample_readings\<lparr>windDirection := None\<rparr>" sample_options fresh_host]
  by (simp add: fresh_host_def app_debug_def)

text \<open>
  Claim C3. When the POST ends with a transport error or with a status other than 200,
  the response callback leaves every variable of the plugin as it was, the accumulated
  wind-speed samples included; so does the whole cycle of tick and response.
\<close>

theorem failed_submission_keeps_buffer:
  "(r = TransportError b \<or> (r = Response code b \<and> code \<noteq> 200)) \<Longrightarrow>
     fst (requestCallback now r (s, h)) = s
     \<and> fst (requestCallback now r (submitTick opts (s, h))) = s"
proof -
  assume "r = TransportError b \<or> (r = Response code b \<and> code \<noteq> 200)"
  then have f: "\<not> succeeded r" by auto
  have "fst (requestCallback now r w) = fst w" for w
    using f by (cases w) (simp add: requestCallback_def)
  then show ?thesis using submitTick_fst [of opts "(s, h)"] by simp
qed

theorem failed_submission_keeps_buffer_witness:
  "(Response 500 ''busy'' = TransportError ''busy''
      \<or> (Response 500 ''busy'' = Response 500 ''busy'' \<and> (500::int) \<noteq> 200))
   \<and> fst (requestCallback 2000 (Response 500 ''busy'') (sample_readings, fresh_host))
       = sample_readings
   \<and> fst (requestCallback 2000 (Response 500 ''busy'')
            (submitTick sample_options (sample_readings, fresh_host))) = sample_readings"
  using failed_submission_keeps_buffer
          [of "Response 500 ''busy''" "''busy''" 500 2000 sample_readings fresh_host sample_options]
  by simp

lemma clause_body_last:
  "clause_body c p v (s, h) = Inr (s', h') \<Longrightarrow> lastSuccessfulUpdate s' = lastSuccessfulUpdate s"
  by (cases c) (auto simp: Let_def split: jsvalue.splits if_splits)

lemma processDelta_last:
  "processDelta genv d (s, h) = Inr (s', h') \<Longrightarrow> lastSuccessfulUpdate s' = lastSuccessfulUpdate s"
  by (auto simp: processDelta_def split: option.splits list.splits sum.splits
           dest: clause_body_last)

lemma step_last:
  assumes "lastSuccessfulUpdate (fst w) \<noteq> None"
  shows "lastSuccessfulUpdate (fst (step genv opts e w)) \<noteq> None"
proof (cases e)
  case (Delta d)
  obtain s h where w: "w = (s, h)" by (cases w)
  show ?thesis
  proof (cases "processDelta genv d w")
    case (Inl err)
    with Delta assms show ?thesis by simp
  next
    case (Inr w')
    obtain s' h' where w': "w' = (s', h')" by (cases w')
    from Inr w w' have "lastSuccessfulUpdate s' = lastSuccessfulUpdate s"
      by (auto dest: processDelta_last)
    with Delta Inr w w' assms show ?thesis by simp
  qed
next
  case (StatusTimer now)
  with assms show ?thesis by (cases w) (simp add: statusTick_def Let_def)
next
  case SubmitTimer
  with assms show ?thesis by (simp add: submitTick_fst)
next
  case (HttpDone now r)
  with assms show ?thesis by (cases w) (simp add: requestCallback_def)
qed

lemma run_last:
  "lastSuccessfulUpdate (fst w) \<noteq> None \<Longrightarrow>
     lastSuccessfulUpdate (fst (run genv opts es w)) \<noteq> None"
proof (induction es arbitrary: w)
  case Nil
  then show ?case by simp
next
  case (Cons e es)
  from Cons.prems have "lastSuccessfulUpdate (fst (step genv opts e w)) \<noteq> None"
    by (rule step_last)
  then show ?case using Cons.IH by simp
qed

text \<open>
  Claim C2. When the POST completes with status 200 and no transport error, the response
  callback sets \<^verbatim>\<open>lastSuccessfulUpdate\<close> to the current time and clears position, wind
  speeds, gust, wind direction, water temperature, temperature, pressure and humidity,
  and nothing else changes; and once \<^verbatim>\<open>lastSuccessfulUpdate\<close> is set, no sequence of
  deltas, timer ticks and responses unsets it.
\<close>

theorem successful_submission_clears_buffer:
  "fst (requestCallback now (Response 200 b) (s, h)) =
     s\<lparr>lastSuccessfulUpdate := Some now, position := None, windSpeed := [], windGust := None,
       windDirection := None, waterTemperature := None, temperature := None,
       pressure := None, humidity := None\<rparr>
   \<and> (lastSuccessfulUpdate (fst w) \<noteq> None
        \<longrightarrow> lastSuccessfulUpdate (fst (run genv opts es w)) \<noteq> None)"
  using run_last [of w genv opts es] by (simp add: requestCallback_def)

theorem successful_submission_clears_buffer_witness:
  "lastSuccessfulUpdate (fst (sample_readings, fresh_host)) \<noteq> None
   \<and> fst (requestCallback 2000 (Response 200 ''ok'') (sample_readings, fresh_host))
       = (initial None)\<lparr>lastSuccessfulUpdate := Some 2000\<rparr>
   \<and> lastSuccessfulUpdate
        (fst (run None sample_options
                [SubmitTimer, HttpDone 3000 (TransportError ''down''), StatusTimer 4000]
                (sample_readings, fresh_host))) \<noteq> None"
  using successful_submission_clears_buffer
          [where now = 2000 and b = "''ok''" and s = sample_readings and h = fresh_host
             and w = "(sample_readings, fresh_host)" and genv = None and opts = sample_options
             and es = "[SubmitTimer, HttpDone 3000 (TransportError ''down''), StatusTimer 4000]"]
  by (simp add: sample_readings_def initial_def)

section \<open>Ingestor dispatch\<close>

lemma select_unbound:
  "select None p switch_labels =
     (if p = Some ''navigation.position'' then Inr CPosition else Inl ReferenceError)"
  by (simp add: switch_labels_def configured_def)

lemma body_wind:
  assumes "clause_body CWindSpeed p v (s, h) = Inr (s', h')"
  shows "\<exists>x. v = Number x
           \<and> s' = s\<lparr>windSpeed := windSpeed s @ [toFixed 2 x],
                   windGust := Some (case windGust s of None \<Rightarrow> toFixed 2 x
                                     | Some g \<Rightarrow> max g (toFixed 2 x))\<rparr>"
proof (cases v)
  case (Number x)
  with assms have "s' = s\<lparr>windSpeed := windSpeed s @ [toFixed 2 x],
                   windGust := Some (case windGust s of None \<Rightarrow> toFixed 2 x
                                     | Some g \<Rightarrow> max g (toFixed 2 x))\<rparr>"
    by (cases "windGust s") (auto simp: Let_def max_def split: if_splits)
  with Number show ?thesis by simp
qed (use assms in simp_all)

lemmas sample_defs = sample_options_def renamed_options_def no_paths_def fresh_host_def
  delta_of_def initial_def

lemma toFixed_5: "toFixed 2 5 = 5" "toFixed 2 7 = 7"
  by (simp_all add: toFixed_def)

section \<open>Updates other than the position where \<^verbatim>\<open>options\<close> is unbound\<close>

lemma processDelta_unbound:
  "p \<noteq> ''navigation.position'' \<Longrightarrow> processDelta None (delta_of p v) w = Inl ReferenceError"
  by (simp add: processDelta_def delta_of_def select_unbound)

text \<open>
  Claim C1, evaluated on the code. Node has no global \<^verbatim>\<open>options\<close>. A pressure update
  under its default Signal K path then raises \<^verbatim>\<open>ReferenceError\<close> at the second case label
  and the pressure stays unset, where the claim has the pressure assigned; an update under
  a configured override path (the humidity path renamed to \<^verbatim>\<open>cabin.humidity\<close>) raises the
  same way and the humidity stays unset.
\<close>

theorem ingestor_update_raises:
  "processDelta None (delta_of ''environment.outside.pressure'' (Number 101325))
       (initial None, fresh_host) = Inl ReferenceError
   \<and> pressure (fst (step None sample_options
                      (Delta (delta_of ''environment.outside.pressure'' (Number 101325)))
                      (initial None, fresh_host))) = None
   \<and> processDelta None (delta_of ''cabin.humidity'' (Number 0.5))
         (initial None, fresh_host) = Inl ReferenceError
   \<and> humidity (fst (step None renamed_options
                      (Delta (delta_of ''cabin.humidity'' (Number 0.5)))
                      (initial None, fresh_host))) = None"
  by (simp add: processDelta_def switch_labels_def configured_def sample_defs)

lemma humidity_conversion_when_bound:
  "processDelta (Some sample_options) (delta_of ''environment.outside.humidity'' (Number 0.455))
       (initial None, fresh_host)
     = Inr ((initial None)\<lparr>humidity := Some (Num 46)\<rparr>, fresh_host)"
  by (simp add: processDelta_def switch_labels_def configured_def sample_defs)

text \<open>
  Claim C9, evaluated on the code. Node has no global \<^verbatim>\<open>options\<close>; the humidity update
  \<open>0.455\<close> then raises \<^verbatim>\<open>ReferenceError\<close> at the second case label, and the humidity stays
  unset where the claim has \<open>46\<close> stored (the value the humidity clause computes, see
  \<open>humidity_conversion_when_bound\<close>).
\<close>

theorem humidity_update_raises:
  "processDelta None (delta_of ''environment.outside.humidity'' (Number 0.455))
       (initial None, fresh_host) = Inl ReferenceError
   \<and> humidity (fst (step None sample_options
                      (Delta (delta_of ''environment.outside.humidity'' (Number 0.455)))
                      (initial None, fresh_host))) = None"
  by (simp add: processDelta_def switch_labels_def configured_def sample_defs)

section \<open>Gust\<close>

lemma gust_tracks_initial: "gust_tracks (initial nm)"
  by (simp add: gust_tracks_def initial_def)

lemma gust_tracks_append:
  assumes "gust_tracks s"
  shows "gust_tracks
           (s\<lparr>windSpeed := windSpeed s @ [x],
              windGust := Some (case windGust s of None \<Rightarrow> x | Some g \<Rightarrow> max g x)\<rparr>)"
proof (cases "windGust s")
  case None
  with assms show ?thesis by (simp add: gust_tracks_def)
next
  case (Some g)
  with assms have "windSpeed s \<noteq> []" and "g = Max (set (windSpeed s))"
    by (simp_all add: gust_tracks_def)
  then have "Max (insert x (set (windSpeed s))) = max g x"
    by (simp add: max.commute)
  with Some show ?thesis by (simp add: gust_tracks_def)
qed

lemma gust_tracks_updates:
  "gust_tracks (s\<lparr>position := a\<rparr>) = gust_tracks s"
  "gust_tracks (s\<lparr>windDirection := b\<rparr>) = gust_tracks s"
  "gust_tracks (s\<lparr>waterTemperature := b\<rparr>) = gust_tracks s"
  "gust_tracks (s\<lparr>temperature := b\<rparr>) = gust_tracks s"
  "gust_tracks (s\<lparr>pressure := b\<rparr>) = gust_tracks s"
  "gust_tracks (s\<lparr>humidity := b\<rparr>) = gust_tracks s"
  "gust_tracks (s\<lparr>lastSuccessfulUpdate := t\<rparr>) = gust_tracks s"
  by (simp_all add: gust_tracks_def split: option.splits)

lemma clause_body_gust:
  assumes "clause_body c p v (s, h) = Inr (s', h')" and "gust_tracks s"
  shows "gust_tracks s'"
proof (cases c)
  case CWindSpeed
  with assms(1) have "clause_body CWindSpeed p v (s, h) = Inr (s', h')" by (simp only:)
  from body_wind [OF this] obtain x where
    "s' = s\<lparr>windSpeed := windSpeed s @ [toFixed 2 x],
            windGust := Some (case windGust s of None \<Rightarrow> toFixed 2 x
                              | Some g \<Rightarrow> max g (toFixed 2 x))\<rparr>"
    by (elim exE conjE)
  with assms(2) show ?thesis by (simp only: gust_tracks_append)
qed (use assms in \<open>auto simp: gust_tracks_updates\<close>)

lemma processDelta_gust:
  "processDelta genv d (s, h) = Inr (s', h') \<Longrightarrow> gust_tracks s \<Longrightarrow> gust_tracks s'"
  by (auto simp: processDelta_def split: option.splits list.splits sum.splits
           dest: clause_body_gust)

lemma step_gust:
  assumes "gust_tracks (fst w)"
  shows "gust_tracks (fst (step genv opts e w))"
proof (cases e)
  case (Delta d)
  obtain s h where w: "w = (s, h)" by (cases w)
  show ?thesis
  proof (cases "processDelta genv d w")
    case (Inl err)
    with Delta assms show ?thesis by simp
  next
    case (Inr w')
    obtain s' h' where w': "w' = (s', h')" by (cases w')
    from Inr w w' assms have "gust_tracks s'"
      by (auto dest: processDelta_gust)
    with Delta Inr w' show ?thesis by simp
  qed
next
  case (StatusTimer now)
  with assms show ?thesis by (cases w) (simp add: statusTick_def Let_def)
next
  case SubmitTimer
  with assms show ?thesis by (simp add: submitTick_fst)
next
  case (HttpDone now r)
  with assms show ?thesis
    by (cases w; cases "succeeded r")
       (simp_all add: requestCallback_def gust_tracks_def split: option.splits)
qed

lemma run_gust: "gust_tracks (fst w) \<Longrightarrow> gust_tracks (fst (run genv opts es w))"
proof (induction es arbitrary: w)
  case Nil
  then show ?case by simp
next
  case (Cons e es)
  from Cons.prems have "gust_tracks (fst (step genv opts e w))" by (rule step_gust)
  then show ?case using Cons.IH by simp
qed

lemma gust_bounds_samples:
  "gust_tracks s \<Longrightarrow> windGust s = Some g \<Longrightarrow> x \<in> set (windSpeed s) \<Longrightarrow> x \<le> g"
  by (simp add: gust_tracks_def)

lemma gust_is_maximum_on_runs:
  "gust_tracks (fst (run genv opts es (initial nm, h)))"
  by (rule run_gust) (simp add: gust_tracks_initial)

lemma wind_speed_updates_when_bound:
  "run (Some sample_options) sample_options
         [Delta (delta_of ''environment.wind.speedOverGround'' (Number 5)),
          Delta (delta_of ''environment.wind.speedOverGround'' (Number 7))]
         (initial None, fresh_host)
     = ((initial None)\<lparr>windSpeed := [5, 7], windGust := Some 7\<rparr>, fresh_host)"
  by (simp add: processDelta_def switch_labels_def configured_def sample_defs toFixed_5)

text \<open>
  Claim C6, evaluated on the code. Without a global \<^verbatim>\<open>options\<close> each wind-speed update
  raises \<^verbatim>\<open>ReferenceError\<close> before the clause that appends the sample: after the updates
  \<open>5\<close> and \<open>7\<close> the gust is unset and no sample is stored, where the claim has the gust
  \<open>7\<close> (which is what the clause computes, see \<open>wind_speed_updates_when_bound\<close> and
  \<open>gust_is_maximum_on_runs\<close>).
\<close>

theorem wind_speed_updates_raise:
  "processDelta None (delta_of ''environment.wind.speedOverGround'' (Number 5))
       (initial None, fresh_host) = Inl ReferenceError
   \<and> run None sample_options
         [Delta (delta_of ''environment.wind.speedOverGround'' (Number 5)),
          Delta (delta_of ''environment.wind.speedOverGround'' (Number 7))]
         (initial None, fresh_host) = (initial None, fresh_host)
   \<and> windGust (initial None) = None"
  by (simp add: processDelta_def switch_labels_def configured_def sample_defs)

section \<open>Stopping the plugin\<close>

lemma stop_subscriptions: "subscriptions (snd (stop w)) = subscriptions (snd w)"
  by (cases w) (simp add: stop_def clearInterval_def setPluginStatus_def Let_def
                     split: option.splits)

lemma stop_clears_timers:
  "e \<in> set (intervals (snd (stop w))) \<Longrightarrow>
     Some (fst e) \<noteq> statusProcess (fst w) \<and> Some (fst e) \<noteq> submitProcess (fst w)"
  by (cases w) (auto simp: stop_def clearInterval_def setPluginStatus_def Let_def
                     split: option.splits)

text \<open>
  Claim C8, evaluated on the code. After \<^verbatim>\<open>start\<close> and \<^verbatim>\<open>stop\<close> both intervals are
  cleared, but the subscription made by \<^verbatim>\<open>start\<close> is still registered with the server and
  its cancel function is still waiting in \<^verbatim>\<open>unsubscribes\<close>: \<^verbatim>\<open>stop\<close> never calls it, so
  deltas keep arriving at \<^verbatim>\<open>processDelta\<close>.
\<close>

theorem stop_leaves_subscription:
  "intervals (snd (stop (snd (start sample_options (initial None, fresh_host))))) = []
   \<and> subscriptions (snd (stop (snd (start sample_options (initial None, fresh_host)))))
       = [(0, [''navigation.position'', ''environment.wind.directionGround'',
               ''environment.wind.speedOverGround'', ''environment.water.temperature'',
               ''environment.outside.temperature'', ''environment.outside.pressure'',
               ''environment.outside.humidity''])]
   \<and> unsubscribes (fst (stop (snd (start sample_options (initial None, fresh_host))))) = [0]"
  by (simp add: start_def stop_def subscribe_def setInterval_def clearInterval_def
        setPluginStatus_def app_debug_def Let_def sample_defs)

section \<open>The median under the guard of the submit callback\<close>

text \<open>
  Claim C10. On an empty array \<^verbatim>\<open>median\<close> reads index \<open>-1\<close>, which is \<^verbatim>\<open>undefined\<close>, and
  returns \<^verbatim>\<open>NaN\<close>. A submit tick that sends a request has at least one wind-speed sample,
  and the \<^verbatim>\<open>wind\<close> of the request is the median of the samples, a number.
\<close>

theorem median_reached_with_samples_only:
  "median_of [] = Some NaN
   \<and> array_get (sort_by (\<lambda>a b. a - b) []) (int (length ([] :: real list) div 2) - 1) = None
   \<and> (requests (snd (submitTick opts (s, h))) \<noteq> requests h \<longrightarrow>
        windSpeed s \<noteq> []
        \<and> (\<exists>req. requests (snd (submitTick opts (s, h))) = requests h @ [req]
                 \<and> map ob_wind (observations (json req)) = [median_of (windSpeed s)])
        \<and> (\<exists>r. median_of (windSpeed s) = Some (Num r)))"
proof -
  have 1: "median_of [] = Some NaN"
    by (simp add: median_of_eq array_get_def)
  have 2: "array_get (sort_by (\<lambda>a b. a - b) []) (int (length ([] :: real list) div 2) - 1) = None"
    by (simp add: array_get_def)
  have 3: "windSpeed s \<noteq> []
        \<and> (\<exists>req. requests (snd (submitTick opts (s, h))) = requests h @ [req]
                 \<and> map ob_wind (observations (json req)) = [median_of (windSpeed s)])
        \<and> (\<exists>r. median_of (windSpeed s) = Some (Num r))"
    if "requests (snd (submitTick opts (s, h))) \<noteq> requests h"
  proof -
    from that have ne: "windSpeed s \<noteq> []"
      by (auto simp: submitTick_def app_debug_def split: option.splits if_splits)
    from that have "\<exists>req. requests (snd (submitTick opts (s, h))) = requests h @ [req]
                 \<and> map ob_wind (observations (json req)) = [median_of (windSpeed s)]"
      by (auto simp: submitTick_def app_debug_def Let_def split: option.splits if_splits)
    with ne median_nonempty [OF ne] show ?thesis by simp
  qed
  from 1 2 3 show ?thesis by blast
qed

theorem median_reached_with_samples_only_witness:
  "requests (snd (submitTick sample_options (sample_readings, fresh_host))) \<noteq> requests fresh_host
   \<and> windSpeed sample_readings \<noteq> []
   \<and> median_of (windSpeed sample_readings) = Some (Num 6)"
  using median_reached_with_samples_only [of sample_options sample_readings fresh_host]
  by (simp add: submitTick_def app_debug_def Let_def sample_readings_def sample_defs
        median_of_eq array_get_def)

end
